theory Spec2Isabelle
  imports Complex_Main "HOL-Library.Char_ord" "HOL-Library.List_Lexorder"
    "HOL-Library.Product_Lexorder" "HOL-Library.Multiset"
begin

section \<open>The transaction table\<close>

text \<open>
  The dashboard script \<^verbatim>\<open>app.py\<close> reads a CSV into a pandas DataFrame and runs six
  preparation blocks over it. A DataFrame is modelled by the names of its columns and its
  list of rows. A cell is an option: \<open>None\<close> is the null (NaN) that an empty CSV cell, or a
  value outside the categories of a categorical column, becomes. Every read of a column
  in the model goes through a test of the column's name, as \<^verbatim>\<open>df['X']\<close> does, so the
  fields of a row that belong to an absent column are never looked at.

  \<open>Money\<close> is a float in pandas. It is an exact rational here, the decimal amount of
  the data model; the rounding of binary floating point is outside the embedding. Counts
  are natural numbers.
\<close>

datatype error = KeyError | ValueError

record row =
  Weekday :: "string option"
  Weekdaysort :: "int option"
  Money :: "rat option"
  Hour_of_Day :: "int option"
  Month_name :: "string option"
  Coffee_Name :: "string option"

record frame =
  columns :: "string list"
  rows :: "row list"

text \<open>A value that is either a string or an integer, as \<^verbatim>\<open>peak_hour\<close> is.\<close>

datatype pyval = PyStr string | PyInt int

definition month_order :: "string list" where
  "month_order = [''January'', ''February'', ''March'', ''April'', ''May'', ''June'',
     ''July'', ''August'', ''September'', ''October'', ''November'', ''December'']"

section \<open>The pandas operations the script calls\<close>

text \<open>Nulls are skipped by \<^verbatim>\<open>sum\<close>, \<^verbatim>\<open>value_counts\<close> and \<^verbatim>\<open>groupby\<close> (their \<^verbatim>\<open>dropna\<close> and
  \<^verbatim>\<open>skipna\<close> defaults).\<close>

fun dropna :: "'a option list \<Rightarrow> 'a list" where
  "dropna [] = []"
| "dropna (None # xs) = dropna xs"
| "dropna (Some x # xs) = x # dropna xs"

text \<open>\<^verbatim>\<open>pd.Categorical(values, categories=...)\<close>: a value that is not a category becomes
  null, silently. The constructor raises \<^verbatim>\<open>ValueError\<close> only for a list of categories with
  a repeated entry.\<close>

definition Categorical :: "string option list \<Rightarrow> string list \<Rightarrow> error + string option list" where
  "Categorical vals categories =
     (if \<not> distinct categories then Inl ValueError
      else Inr (map (\<lambda>v. case v of None \<Rightarrow> None
                            | Some c \<Rightarrow> if c \<in> set categories then Some c else None) vals))"

text \<open>\<^verbatim>\<open>groupby(keys)\<close> with the defaults \<^verbatim>\<open>sort=True, dropna=True\<close>: one group per
  distinct key without a null component, in ascending order of the key (for a pair of
  keys, lexicographic).\<close>

definition group_keys :: "('r \<Rightarrow> 'k::linorder option) \<Rightarrow> 'r list \<Rightarrow> 'k list" where
  "group_keys key rs = sort (remdups (dropna (map key rs)))"

definition groupby_sum ::
  "('r \<Rightarrow> 'k::linorder option) \<Rightarrow> ('r \<Rightarrow> rat option) \<Rightarrow> 'r list \<Rightarrow> ('k \<times> rat) list" where
  "groupby_sum key val rs =
     map (\<lambda>k. (k, sum_list (dropna (map val (filter (\<lambda>r. key r = Some k) rs)))))
       (group_keys key rs)"

definition groupby_size :: "('r \<Rightarrow> 'k::linorder option) \<Rightarrow> 'r list \<Rightarrow> ('k \<times> nat) list" where
  "groupby_size key rs =
     map (\<lambda>k. (k, length (filter (\<lambda>r. key r = Some k) rs))) (group_keys key rs)"

text \<open>Grouping by a categorical column lists the categories in their order. Whether a
  category without rows is listed is the \<^verbatim>\<open>observed\<close> option, whose default differs
  between pandas versions; it is a parameter here.\<close>

definition groupby_size_categorical ::
  "bool \<Rightarrow> string list \<Rightarrow> string option list \<Rightarrow> (string \<times> nat) list" where
  "groupby_size_categorical observed categories col =
     (let counts = map (\<lambda>c. (c, count_list col (Some c))) categories
      in if observed then filter (\<lambda>(c, n). 0 < n) counts else counts)"

text \<open>A DataFrame derived by the script carries an index label with every row.
  \<^verbatim>\<open>reset_index\<close> numbers the rows from 0; \<^verbatim>\<open>set_index\<close> on the key column drops the
  numbering again.\<close>

definition reset_index :: "'a list \<Rightarrow> (nat \<times> 'a) list" where
  "reset_index xs = zip [0..<length xs] xs"

definition set_index :: "(nat \<times> 'a) list \<Rightarrow> 'a list" where
  "set_index t = map snd t"

text \<open>\<^verbatim>\<open>reindex(labels)\<close> looks every label up and gives null where it is missing;
  \<^verbatim>\<open>fillna(0)\<close> replaces the nulls.\<close>

definition reindex :: "'k list \<Rightarrow> ('k \<times> 'v) list \<Rightarrow> ('k \<times> 'v option) list" where
  "reindex labels t = map (\<lambda>k. (k, map_of t k)) labels"

definition fillna0 :: "('k \<times> nat option) list \<Rightarrow> ('k \<times> nat) list" where
  "fillna0 t = map (\<lambda>(k, v). (k, case v of None \<Rightarrow> 0 | Some n \<Rightarrow> n)) t"

text \<open>\<^verbatim>\<open>sort_values\<close> and \<^verbatim>\<open>sort_index\<close>, ascending. The sort is taken stable (numpy's
  default sort is, on the short tables of this script); no theorem below depends on the
  order of rows with equal sort keys. Descending, pandas reverses, sorts and reverses
  again.\<close>

definition sort_values :: "('a \<Rightarrow> 'k::linorder) \<Rightarrow> 'a list \<Rightarrow> 'a list" where
  "sort_values by t = sort_key by t"

definition sort_values_desc :: "('a \<Rightarrow> 'k::linorder) \<Rightarrow> 'a list \<Rightarrow> 'a list" where
  "sort_values_desc by t = rev (sort_key by (rev t))"

text \<open>\<^verbatim>\<open>pd.unique\<close>: the distinct values in order of first appearance.\<close>

definition unique :: "'a list \<Rightarrow> 'a list" where
  "unique xs = rev (remdups (rev xs))"

text \<open>\<^verbatim>\<open>Series.value_counts()\<close>: the count of every distinct non-null value, most
  frequent first.\<close>

definition value_counts :: "'a option list \<Rightarrow> ('a \<times> nat) list" where
  "value_counts col =
     (let vals = dropna col
      in sort_values_desc snd (map (\<lambda>k. (k, count_list vals k)) (unique vals)))"

text \<open>\<^verbatim>\<open>value_counts(normalize=True) * 100\<close>: the counts divided by their sum, times 100.\<close>

definition value_counts_normalize_x100 :: "'a option list \<Rightarrow> ('a \<times> rat) list" where
  "value_counts_normalize_x100 col =
     (let counts = value_counts col; total = sum_list (map snd counts)
      in map (\<lambda>(k, c). (k, of_nat c / of_nat total * 100)) counts)"

text \<open>\<^verbatim>\<open>idxmax\<close> gives the label of the first entry holding the maximum and raises
  \<^verbatim>\<open>ValueError\<close> on an empty Series. \<^verbatim>\<open>max\<close> of an empty Series is NaN (\<open>None\<close>).\<close>

fun argmax_from :: "'l \<times> 'v::linorder \<Rightarrow> ('l \<times> 'v) list \<Rightarrow> 'l \<times> 'v" where
  "argmax_from best [] = best"
| "argmax_from best (x # xs) = argmax_from (if snd best < snd x then x else best) xs"

definition idxmax :: "('l \<times> 'v::linorder) list \<Rightarrow> error + 'l" where
  "idxmax s = (case s of [] \<Rightarrow> Inl ValueError | x # xs \<Rightarrow> Inr (fst (argmax_from x xs)))"

definition series_max :: "('l \<times> 'v::linorder) list \<Rightarrow> 'v option" where
  "series_max s = (case s of [] \<Rightarrow> None | x # xs \<Rightarrow> Some (snd (argmax_from x xs)))"

text \<open>\<^verbatim>\<open>t.loc[label, column]\<close>: the row with that index label; \<^verbatim>\<open>KeyError\<close> when there is
  none.\<close>

definition loc :: "nat \<Rightarrow> (nat \<times> 'a) list \<Rightarrow> error + 'a" where
  "loc label t = (case map_of t label of None \<Rightarrow> Inl KeyError | Some r \<Rightarrow> Inr r)"

text \<open>A column of a derived DataFrame, as a Series over the same index.\<close>

definition column :: "('a \<Rightarrow> 'v) \<Rightarrow> (nat \<times> 'a) list \<Rightarrow> (nat \<times> 'v) list" where
  "column f t = map (\<lambda>(i, r). (i, f r)) t"

definition bind :: "error + 'a \<Rightarrow> ('a \<Rightarrow> error + 'b) \<Rightarrow> error + 'b" where
  "bind m f = (case m of Inl e \<Rightarrow> Inl e | Inr x \<Rightarrow> f x)"

section \<open>The script's variables\<close>

text \<open>The script computes at module level: its blocks read \<^verbatim>\<open>df\<close> and assign global
  variables. The state holds \<^verbatim>\<open>df\<close>, the warnings shown so far, and the variables of the
  six blocks. A table variable is \<open>None\<close> while it holds Python's \<^verbatim>\<open>None\<close>.\<close>

type_synonym day_key = "string \<times> int"

record state =
  df :: frame
  warnings :: "string list"
  sales_by_day_money :: "(nat \<times> day_key \<times> rat) list option"
  dia_pico_ingresos :: string
  cafe_mas_vendido_ano :: string
  ventas_cafe_estrella_mes :: "(nat \<times> string \<times> nat) list option"
  mes_pico_estrella :: string
  max_ventas_estrella :: "nat option"
  sales_by_hour :: "(int \<times> nat) list option"
  peak_hour :: pyval
  sales_at_peak :: "nat option"
  porcentajes_cafe :: "(string \<times> rat) list option"
  top_coffee_name :: string
  top_coffee_percent :: "rat option"
  sales_volume_by_weekday :: "(nat \<times> day_key \<times> nat) list option"
  peak_sales_day :: string
  sales_volume_by_month :: "(nat \<times> string \<times> nat) list option"
  peak_sales_month :: string
  peak_sales_month_volume :: "nat option"

definition has :: "string \<Rightarrow> state \<Rightarrow> bool" where
  "has c s = (c \<in> set (columns (df s)))"

section \<open>Lines 45 to 49: the month column becomes categorical\<close>

definition warning_text :: string where
  "warning_text = ''Advertencia: No todos los meses esperados estan en los datos.''"

text \<open>\<^verbatim>\<open>df['Month_name']\<close> raises \<^verbatim>\<open>KeyError\<close> when the column is absent, and the
  \<^verbatim>\<open>except ValueError\<close> of the script does not catch it.\<close>

definition normalize :: "state \<Rightarrow> error + state" where
  "normalize s =
     (if \<not> has ''Month_name'' s then Inl KeyError
      else case Categorical (map Month_name (rows (df s))) month_order of
          Inl ValueError \<Rightarrow> Inr (s\<lparr>warnings := warnings s @ [warning_text]\<rparr>)
        | Inl e \<Rightarrow> Inl e
        | Inr col \<Rightarrow>
            Inr (s\<lparr>df := (df s)\<lparr>rows :=
              map (\<lambda>(r, v). r\<lparr>Month_name := v\<rparr>) (zip (rows (df s)) col)\<rparr>\<rparr>))"

section \<open>The six preparation blocks\<close>

definition day_key :: "row \<Rightarrow> day_key option" where
  "day_key r = (case (Weekday r, Weekdaysort r) of
                  (Some w, Some k) \<Rightarrow> Some (w, k)
                | _ \<Rightarrow> None)"

text \<open>Lines 59 and 61: \<^verbatim>\<open>groupby(['Weekday', 'Weekdaysort'])['Money'].sum()\<close>,
  \<^verbatim>\<open>reset_index()\<close> and \<^verbatim>\<open>sort_values('Weekdaysort')\<close>; lines 129 and 130 do the same
  with \<^verbatim>\<open>size()\<close>.\<close>

definition day_money_table :: "row list \<Rightarrow> (nat \<times> day_key \<times> rat) list" where
  "day_money_table rs =
     sort_values (\<lambda>(i, k, m). snd k) (reset_index (groupby_sum day_key Money rs))"

definition day_volume_table :: "row list \<Rightarrow> (nat \<times> day_key \<times> nat) list" where
  "day_volume_table rs =
     sort_values (\<lambda>(i, k, n). snd k) (reset_index (groupby_size day_key rs))"

text \<open>Block 1, lines 54 to 63: revenue by weekday. The peak lookup is not guarded.\<close>

definition sales_by_day_money_block :: "state \<Rightarrow> error + state" where
  "sales_by_day_money_block s0 =
     (let s = s0\<lparr>sales_by_day_money := None, dia_pico_ingresos := ''N/A''\<rparr>
      in if has ''Weekday'' s \<and> has ''Money'' s \<and> has ''Weekdaysort'' s then
           let t = day_money_table (rows (df s))
           in bind (idxmax (column snd t)) (\<lambda>l.
              bind (loc l t) (\<lambda>(k, m).
              Inr (s\<lparr>sales_by_day_money := Some t, dia_pico_ingresos := fst k\<rparr>)))
         else Inr s)"

text \<open>The chain \<^verbatim>\<open>groupby('Month_name').size().reset_index(name='Ventas')\<close>,
  \<^verbatim>\<open>set_index('Month_name').reindex(month_order).fillna(0).reset_index()\<close> of blocks 2
  and 6.\<close>

definition month_table :: "bool \<Rightarrow> string option list \<Rightarrow> (nat \<times> string \<times> nat) list" where
  "month_table observed col =
     reset_index (fillna0 (reindex month_order (set_index (reset_index
       (groupby_size_categorical observed month_order col)))))"

text \<open>Block 2, lines 68 to 87: the best-selling coffee and its monthly sales. Only
  \<^verbatim>\<open>Coffee_Name\<close> is tested; \<^verbatim>\<open>idxmax\<close> on the counts is not guarded, and
  \<^verbatim>\<open>groupby('Month_name')\<close> raises \<^verbatim>\<open>KeyError\<close> without that column.\<close>

definition ventas_cafe_estrella_block :: "bool \<Rightarrow> state \<Rightarrow> error + state" where
  "ventas_cafe_estrella_block observed s0 =
     (let s = s0\<lparr>cafe_mas_vendido_ano := ''N/A'', ventas_cafe_estrella_mes := None,
                 mes_pico_estrella := ''N/A'', max_ventas_estrella := Some 0\<rparr>
      in if has ''Coffee_Name'' s then
           bind (idxmax (value_counts (map Coffee_Name (rows (df s))))) (\<lambda>top.
             let df_cafe_mas_vendido = filter (\<lambda>r. Coffee_Name r = Some top) (rows (df s))
             in if \<not> has ''Month_name'' s then Inl KeyError
                else
                  let t = month_table observed (map Month_name df_cafe_mas_vendido)
                  in bind (idxmax (column snd t)) (\<lambda>l.
                     bind (loc l t) (\<lambda>(m, n).
                     Inr (s\<lparr>cafe_mas_vendido_ano := top,
                            ventas_cafe_estrella_mes := Some t,
                            max_ventas_estrella := series_max (column snd t),
                            mes_pico_estrella := m\<rparr>))))
         else Inr s)"

text \<open>Block 3, lines 92 to 103: sales by hour.\<close>

definition sales_by_hour_block :: "state \<Rightarrow> error + state" where
  "sales_by_hour_block s0 =
     (let s = s0\<lparr>sales_by_hour := None, peak_hour := PyStr ''N/A'', sales_at_peak := Some 0\<rparr>
      in if has ''Hour_of_Day'' s then
           let t = sort_values fst (value_counts (map Hour_of_Day (rows (df s))));
               s1 = s\<lparr>sales_by_hour := Some t\<rparr>
           in if t \<noteq> [] then
                bind (idxmax t) (\<lambda>h.
                Inr (s1\<lparr>peak_hour := PyInt h, sales_at_peak := series_max t\<rparr>))
              else Inr s1
         else Inr s)"

text \<open>Block 4, lines 108 to 119: the share of every coffee.\<close>

definition porcentajes_cafe_block :: "state \<Rightarrow> error + state" where
  "porcentajes_cafe_block s0 =
     (let s = s0\<lparr>porcentajes_cafe := None, top_coffee_name := ''N/A'',
                 top_coffee_percent := Some 0\<rparr>
      in if has ''Coffee_Name'' s then
           let t = value_counts_normalize_x100 (map Coffee_Name (rows (df s)));
               s1 = s\<lparr>porcentajes_cafe := Some t\<rparr>
           in if t \<noteq> [] then
                bind (idxmax t) (\<lambda>c.
                Inr (s1\<lparr>top_coffee_name := c, top_coffee_percent := series_max t\<rparr>))
              else Inr s1
         else Inr s)"

text \<open>Block 5, lines 124 to 134: number of sales by weekday.\<close>

definition sales_volume_by_weekday_block :: "state \<Rightarrow> error + state" where
  "sales_volume_by_weekday_block s0 =
     (let s = s0\<lparr>sales_volume_by_weekday := None, peak_sales_day := ''N/A''\<rparr>
      in if has ''Weekday'' s \<and> has ''Weekdaysort'' s then
           let t = day_volume_table (rows (df s));
               s1 = s\<lparr>sales_volume_by_weekday := Some t\<rparr>
           in if t \<noteq> [] then
                bind (idxmax (column snd t)) (\<lambda>l.
                bind (loc l t) (\<lambda>(k, n).
                Inr (s1\<lparr>peak_sales_day := fst k\<rparr>)))
              else Inr s1
         else Inr s)"

text \<open>Block 6, lines 139 to 152: number of sales by month.\<close>

definition sales_volume_by_month_block :: "bool \<Rightarrow> state \<Rightarrow> error + state" where
  "sales_volume_by_month_block observed s0 =
     (let s = s0\<lparr>sales_volume_by_month := None, peak_sales_month := ''N/A'',
                 peak_sales_month_volume := Some 0\<rparr>
      in if has ''Month_name'' s then
           let t = month_table observed (map Month_name (rows (df s)));
               s1 = s\<lparr>sales_volume_by_month := Some t\<rparr>
           in if t \<noteq> [] then
                bind (idxmax (column snd t)) (\<lambda>l.
                bind (loc l t) (\<lambda>(m, n).
                Inr (s1\<lparr>peak_sales_month_volume := series_max (column snd t),
                        peak_sales_month := m\<rparr>)))
              else Inr s1
         else Inr s)"

text \<open>The blocks run one after the other; an exception in one ends the script.\<close>

definition aggregator :: "bool \<Rightarrow> state \<Rightarrow> error + state" where
  "aggregator observed s =
     bind (sales_by_day_money_block s) (\<lambda>s.
     bind (ventas_cafe_estrella_block observed s) (\<lambda>s.
     bind (sales_by_hour_block s) (\<lambda>s.
     bind (porcentajes_cafe_block s) (\<lambda>s.
     bind (sales_volume_by_weekday_block s) (\<lambda>s.
     sales_volume_by_month_block observed s)))))"

definition script :: "bool \<Rightarrow> state \<Rightarrow> error + state" where
  "script observed s = bind (normalize s) (aggregator observed)"

section \<open>Starting states and sample tables\<close>

text \<open>The state in which a run begins: the table, and every variable at the default its
  block assigns first.\<close>

definition fresh :: "frame \<Rightarrow> state" where
  "fresh d = \<lparr>df = d, warnings = [], sales_by_day_money = None, dia_pico_ingresos = ''N/A'',
     cafe_mas_vendido_ano = ''N/A'', ventas_cafe_estrella_mes = None,
     mes_pico_estrella = ''N/A'', max_ventas_estrella = Some 0, sales_by_hour = None,
     peak_hour = PyStr ''N/A'', sales_at_peak = Some 0, porcentajes_cafe = None,
     top_coffee_name = ''N/A'', top_coffee_percent = Some 0, sales_volume_by_weekday = None,
     peak_sales_day = ''N/A'', sales_volume_by_month = None, peak_sales_month = ''N/A'',
     peak_sales_month_volume = Some 0\<rparr>"

definition all_columns :: "string list" where
  "all_columns = [''Date'', ''Weekday'', ''Weekdaysort'', ''Hour_of_Day'', ''Month_name'',
     ''Coffee_Name'', ''Money'']"

definition sale :: "string \<Rightarrow> int \<Rightarrow> rat \<Rightarrow> int \<Rightarrow> string \<Rightarrow> string \<Rightarrow> row" where
  "sale w k m h mo c = \<lparr>Weekday = Some w, Weekdaysort = Some k, Money = Some m,
     Hour_of_Day = Some h, Month_name = Some mo, Coffee_Name = Some c\<rparr>"

text \<open>A table with every column but \<^verbatim>\<open>Month_name\<close>, and a table with every column and no
  row (a CSV holding only its header line).\<close>

definition no_month_frame :: frame where
  "no_month_frame =
     \<lparr>columns = [''Date'', ''Weekday'', ''Weekdaysort'', ''Hour_of_Day'', ''Coffee_Name'',
        ''Money''],
      rows = [\<lparr>Weekday = Some ''Monday'', Weekdaysort = Some 1, Money = Some 10,
               Hour_of_Day = Some 8, Month_name = None, Coffee_Name = Some ''Latte''\<rparr>]\<rparr>"

definition empty_frame :: frame where
  "empty_frame = \<lparr>columns = all_columns, rows = []\<rparr>"

section \<open>The peak of a table, in the words of the specification\<close>

text \<open>"The first grouping key achieving the maximum under the output's stated order": the
  first entry of the table that no later entry exceeds; there is none in an empty
  table.\<close>

fun first_max :: "('a \<Rightarrow> 'v::linorder) \<Rightarrow> 'a list \<Rightarrow> 'a option" where
  "first_max f [] = None"
| "first_max f (x # xs) = (if \<forall>y\<in>set xs. f y \<le> f x then Some x else first_max f xs)"

text \<open>The tenths that Python's format \<^verbatim>\<open>:.1f\<close> shows (lines 412 and 437): the nearest
  tenth, a tie going to the even one.\<close>

definition format_1f :: "rat \<Rightarrow> int" where
  "format_1f x =
     (let t = x * 10; fl = \<lfloor>t\<rfloor>; frac = t - of_int fl
      in if frac < 1 / 2 then fl
         else if 1 / 2 < frac then fl + 1
         else if even fl then fl else fl + 1)"

definition latte_frame :: frame where
  "latte_frame = \<lparr>columns = all_columns,
     rows = [sale ''Monday'' 1 10 8 ''March'' ''Latte'', sale ''Monday'' 1 5 9 ''March'' ''Latte'',
             sale ''Tuesday'' 2 7 8 ''May'' ''Espresso'']\<rparr>"

text \<open>The parts of an entry of a labelled table: its grouping key and its measure; for
  the weekday tables the key is the pair of the weekday's name and its sort key.\<close>

abbreviation entry_key :: "nat \<times> 'k \<times> 'v \<Rightarrow> 'k" where
  "entry_key \<equiv> fst \<circ> snd"

abbreviation entry_value :: "nat \<times> 'k \<times> 'v \<Rightarrow> 'v" where
  "entry_value \<equiv> snd \<circ> snd"

abbreviation weekday_name :: "nat \<times> day_key \<times> 'v \<Rightarrow> string" where
  "weekday_name \<equiv> fst \<circ> fst \<circ> snd"

abbreviation weekday_sort :: "nat \<times> day_key \<times> 'v \<Rightarrow> int" where
  "weekday_sort \<equiv> snd \<circ> fst \<circ> snd"

text \<open>A table with all columns whose only row has an empty \<^verbatim>\<open>Coffee_Name\<close> cell, and a
  table with ties: two weekdays with the same revenue, two hours and two coffees with the
  same number of sales.\<close>

definition no_product_frame :: frame where
  "no_product_frame = \<lparr>columns = all_columns,
     rows = [\<lparr>Weekday = Some ''Monday'', Weekdaysort = Some 1, Money = Some 10,
               Hour_of_Day = Some 8, Month_name = Some ''March'', Coffee_Name = None\<rparr>]\<rparr>"

definition tie_frame :: frame where
  "tie_frame = \<lparr>columns = all_columns,
     rows = [sale ''Tuesday'' 2 10 9 ''May'' ''Latte'', sale ''Monday'' 1 10 8 ''March'' ''Espresso'']\<rparr>"

text \<open>The month table of a column without any canonical month.\<close>

definition no_sales_by_month :: "(nat \<times> string \<times> nat) list" where
  "no_sales_by_month = [(0, ''January'', 0), (1, ''February'', 0), (2, ''March'', 0),
     (3, ''April'', 0), (4, ''May'', 0), (5, ''June'', 0), (6, ''July'', 0), (7, ''August'', 0),
     (8, ''September'', 0), (9, ''October'', 0), (10, ''November'', 0), (11, ''December'', 0)]"

(*DEFS-END*)

section \<open>Facts about the pandas operations\<close>

lemma set_dropna: "set (dropna xs) = {x. Some x \<in> set xs}"
  by (induction xs rule: dropna.induct) auto

lemma dropna_append: "dropna (xs @ ys) = dropna xs @ dropna ys"
  by (induction xs rule: dropna.induct) auto

lemma length_dropna_map:
  "length (dropna (map key rs)) = length (filter (\<lambda>r. key r \<noteq> None) rs)"
  by (induction rs) (auto split: option.splits)

lemma dropna_empty_iff: "dropna xs = [] \<longleftrightarrow> (\<forall>x\<in>set xs. x = None)"
  by (induction xs rule: dropna.induct) auto

lemma count_list_dropna: "count_list (dropna xs) k = count_list xs (Some k)"
  by (induction xs rule: dropna.induct) auto

lemma count_list_map_key:
  "count_list (map key rs) v = length (filter (\<lambda>r. key r = v) rs)"
  by (induction rs) auto

lemma distinct_group_keys: "distinct (group_keys key rs)"
  by (simp add: group_keys_def)

lemma sorted_group_keys: "sorted (group_keys key rs)"
  by (simp add: group_keys_def)

lemma set_group_keys: "set (group_keys key rs) = {k. \<exists>r\<in>set rs. key r = Some k}"
  by (force simp: group_keys_def set_dropna)

lemma sum_list_indicator:
  fixes v :: "'b::comm_monoid_add"
  shows "distinct ks \<Longrightarrow> sum_list (map (\<lambda>k. if a = k then v else 0) ks) = (if a \<in> set ks then v else 0)"
  by (induction ks) auto

lemma sum_over_groups:
  fixes f :: "'r \<Rightarrow> 'b::comm_monoid_add"
  assumes "distinct ks" and "\<forall>r\<in>set rs. key r \<noteq> None \<longrightarrow> the (key r) \<in> set ks"
  shows "(\<Sum>k\<leftarrow>ks. \<Sum>r\<leftarrow>filter (\<lambda>r. key r = Some k) rs. f r)
         = (\<Sum>r\<leftarrow>filter (\<lambda>r. key r \<noteq> None) rs. f r)"
  using assms(2)
proof (induction rs)
  case Nil
  then show ?case by simp
next
  case (Cons r rs)
  have step: "(\<Sum>k\<leftarrow>ks. \<Sum>x\<leftarrow>filter (\<lambda>r. key r = Some k) (r # rs). f x)
      = (\<Sum>k\<leftarrow>ks. if key r = Some k then f r else 0)
        + (\<Sum>k\<leftarrow>ks. \<Sum>x\<leftarrow>filter (\<lambda>r. key r = Some k) rs. f x)"
  proof -
    have "\<And>k. (\<Sum>x\<leftarrow>filter (\<lambda>r. key r = Some k) (r # rs). f x)
        = (if key r = Some k then f r else 0) + (\<Sum>x\<leftarrow>filter (\<lambda>r. key r = Some k) rs. f x)"
      by simp
    then show ?thesis by (simp only: sum_list_addf)
  qed
  show ?case
  proof (cases "key r")
    case None
    then have A: "(\<Sum>k\<leftarrow>ks. if key r = Some k then f r else 0) = 0"
      by simp
    have B: "(\<Sum>k\<leftarrow>ks. \<Sum>x\<leftarrow>filter (\<lambda>r. key r = Some k) rs. f x)
        = (\<Sum>r\<leftarrow>filter (\<lambda>r. key r \<noteq> None) rs. f r)"
      using Cons by simp
    have C: "(\<Sum>x\<leftarrow>filter (\<lambda>r. key r \<noteq> None) (r # rs). f x)
        = (\<Sum>x\<leftarrow>filter (\<lambda>r. key r \<noteq> None) rs. f x)"
      using None by simp
    show ?thesis by (simp only: step A B C add_0)
  next
    case (Some a)
    then have "a \<in> set ks" using Cons.prems by auto
    then have A: "(\<Sum>k\<leftarrow>ks. if key r = Some k then f r else 0) = f r"
      using Some assms(1) by (simp add: sum_list_indicator)
    have B: "(\<Sum>k\<leftarrow>ks. \<Sum>x\<leftarrow>filter (\<lambda>r. key r = Some k) rs. f x)
        = (\<Sum>r\<leftarrow>filter (\<lambda>r. key r \<noteq> None) rs. f r)"
      using Cons by simp
    have C: "(\<Sum>x\<leftarrow>filter (\<lambda>r. key r \<noteq> None) (r # rs). f x)
        = f r + (\<Sum>x\<leftarrow>filter (\<lambda>r. key r \<noteq> None) rs. f x)"
      using Some by simp
    show ?thesis by (simp only: step A B C)
  qed
qed

lemma length_as_sum: "(\<Sum>x\<leftarrow>xs. Suc 0) = length xs"
  by (induction xs) auto

lemma groupby_size_total:
  "sum_list (map snd (groupby_size key rs)) = length (filter (\<lambda>r. key r \<noteq> None) rs)"
proof -
  have "sum_list (map snd (groupby_size key rs))
      = (\<Sum>k\<leftarrow>group_keys key rs. \<Sum>r\<leftarrow>filter (\<lambda>r. key r = Some k) rs. (1::nat))"
    by (simp add: groupby_size_def comp_def length_as_sum)
  also have "\<dots> = (\<Sum>r\<leftarrow>filter (\<lambda>r. key r \<noteq> None) rs. (1::nat))"
    by (rule sum_over_groups) (auto simp: distinct_group_keys set_group_keys)
  finally show ?thesis by (simp add: length_as_sum)
qed

lemma dropna_as_sum:
  "sum_list (dropna (map val rs)) = (\<Sum>r\<leftarrow>rs. case val r of None \<Rightarrow> (0::rat) | Some m \<Rightarrow> m)"
  by (induction rs) (auto split: option.splits)

lemma groupby_sum_total:
  "sum_list (map snd (groupby_sum key val rs))
     = sum_list (dropna (map val (filter (\<lambda>r. key r \<noteq> None) rs)))"
proof -
  have "sum_list (map snd (groupby_sum key val rs))
      = (\<Sum>k\<leftarrow>group_keys key rs. \<Sum>r\<leftarrow>filter (\<lambda>r. key r = Some k) rs.
           case val r of None \<Rightarrow> (0::rat) | Some m \<Rightarrow> m)"
    by (simp add: groupby_sum_def comp_def dropna_as_sum)
  also have "\<dots> = (\<Sum>r\<leftarrow>filter (\<lambda>r. key r \<noteq> None) rs. case val r of None \<Rightarrow> (0::rat) | Some m \<Rightarrow> m)"
    by (rule sum_over_groups) (auto simp: distinct_group_keys set_group_keys)
  finally show ?thesis by (simp add: dropna_as_sum)
qed

lemma map_fst_groupby_sum: "map fst (groupby_sum key val rs) = group_keys key rs"
  by (simp add: groupby_sum_def comp_def)

lemma map_fst_groupby_size: "map fst (groupby_size key rs) = group_keys key rs"
  by (simp add: groupby_size_def comp_def)

lemma map_snd_reset_index: "map snd (reset_index xs) = xs"
  by (simp add: reset_index_def)

lemma map_fst_reset_index: "map fst (reset_index xs) = [0..<length xs]"
  by (simp add: reset_index_def)

lemma mset_sort_values: "mset (sort_values by t) = mset t"
  by (simp add: sort_values_def)

lemma set_sort_values: "set (sort_values by t) = set t"
  by (simp add: sort_values_def)

lemma sorted_sort_values: "sorted (map by (sort_values by t))"
  by (simp add: sort_values_def)

lemma sum_list_sort_values:
  fixes f :: "'a \<Rightarrow> 'b::comm_monoid_add"
  shows "sum_list (map f (sort_values by t)) = sum_list (map f t)"
proof -
  have "mset (map f (sort_values by t)) = mset (map f t)"
    by (simp add: mset_sort_values)
  then show ?thesis by (metis sum_mset_sum_list)
qed

lemma distinct_labels_sort_values:
  "distinct (map fst (sort_values by (reset_index xs)))"
proof -
  have "mset (map fst (sort_values by (reset_index xs))) = mset (map fst (reset_index xs))"
    by (simp add: mset_sort_values)
  moreover have "distinct (map fst (reset_index xs))"
    by (simp add: map_fst_reset_index)
  ultimately show ?thesis by (metis mset_eq_imp_distinct_iff)
qed


section \<open>Counting values\<close>

lemma set_unique: "set (unique xs) = set xs"
  by (simp add: unique_def)

lemma distinct_unique: "distinct (unique xs)"
  by (simp add: unique_def)

lemma mset_sort_values_desc: "mset (sort_values_desc by t) = mset t"
  by (simp add: sort_values_desc_def)

lemma set_sort_values_desc: "set (sort_values_desc by t) = set t"
  by (simp add: sort_values_desc_def)

lemma sorted_sort_values_desc: "sorted (rev (map by (sort_values_desc by t)))"
  by (simp add: sort_values_desc_def rev_map)

lemma set_value_counts:
  "set (value_counts col) = {(k, count_list col (Some k)) | k. Some k \<in> set col}"
  by (auto simp: value_counts_def set_sort_values_desc set_unique set_dropna count_list_dropna)

lemma mset_value_counts:
  "mset (value_counts col) = mset (map (\<lambda>k. (k, count_list col (Some k))) (unique (dropna col)))"
  by (simp add: value_counts_def mset_sort_values_desc count_list_dropna)

lemma distinct_keys_value_counts: "distinct (map fst (value_counts col))"
proof -
  have "mset (map fst (value_counts col)) = mset (unique (dropna col))"
    by (simp add: mset_value_counts multiset.map_comp comp_def)
  then show ?thesis using distinct_unique by (metis mset_eq_imp_distinct_iff)
qed

lemma sum_counts_distinct:
  assumes "distinct ks" and "set ks = set xs"
  shows "sum_list (map (count_list xs) ks) = length xs"
proof -
  have "sum_list (map (count_list xs) ks) = sum (count_list xs) (set ks)"
    using assms(1) by (rule sum_list_distinct_conv_sum_set)
  also have "\<dots> = length xs"
    using assms(2) by (simp add: sum_count_set)
  finally show ?thesis .
qed

lemma value_counts_total: "sum_list (map snd (value_counts col)) = length (dropna col)"
proof -
  have f: "(\<lambda>k. count_list col (Some k)) = count_list (dropna col)"
    by (simp add: fun_eq_iff count_list_dropna)
  have "mset (map snd (value_counts col))
      = mset (map (\<lambda>k. count_list col (Some k)) (unique (dropna col)))"
    by (simp add: mset_value_counts multiset.map_comp comp_def)
  then have "sum_list (map snd (value_counts col))
      = sum_list (map (\<lambda>k. count_list col (Some k)) (unique (dropna col)))"
    by (metis sum_mset_sum_list)
  then show ?thesis
    unfolding f by (simp add: sum_counts_distinct distinct_unique set_unique)
qed

lemma value_counts_empty_iff: "value_counts col = [] \<longleftrightarrow> dropna col = []"
proof -
  have "value_counts col = [] \<longleftrightarrow> set (value_counts col) = {}" by simp
  also have "\<dots> \<longleftrightarrow> set (dropna col) = {}"
    by (auto simp: set_value_counts set_dropna)
  finally show ?thesis by simp
qed

lemma sorted_desc_value_counts: "sorted (rev (map snd (value_counts col)))"
  by (simp add: value_counts_def Let_def sorted_sort_values_desc)

lemma map_of_value_counts:
  "map_of (value_counts col) k = (if Some k \<in> set col then Some (count_list col (Some k)) else None)"
proof (cases "Some k \<in> set col")
  case True
  then have "(k, count_list col (Some k)) \<in> set (value_counts col)"
    by (auto simp: set_value_counts)
  then show ?thesis using True distinct_keys_value_counts [of col] by simp
next
  case False
  then have "k \<notin> fst ` set (value_counts col)"
    by (auto simp: set_value_counts)
  then show ?thesis using False by (simp add: map_of_eq_None_iff)
qed

text \<open>The table of shares.\<close>

lemma map_fst_normalize:
  "map fst (value_counts_normalize_x100 col) = map fst (value_counts col)"
  by (simp add: value_counts_normalize_x100_def Let_def case_prod_unfold comp_def)

lemma normalize_empty_iff: "value_counts_normalize_x100 col = [] \<longleftrightarrow> dropna col = []"
  by (simp add: value_counts_normalize_x100_def Let_def value_counts_empty_iff)

lemma normalize_eq:
  "value_counts_normalize_x100 col
     = map (\<lambda>(k, c). (k, of_nat c / of_nat (length (dropna col)) * 100)) (value_counts col)"
  by (simp add: value_counts_normalize_x100_def Let_def value_counts_total)

lemma sum_list_scaled:
  fixes d :: rat
  shows "sum_list (map (\<lambda>p. of_nat (snd p) * 100 / d) t) = of_nat (sum_list (map snd t)) * 100 / d"
  by (induction t) (simp_all add: add_divide_distrib distrib_right)

lemma shares_total:
  assumes "dropna col \<noteq> []"
  shows "sum_list (map snd (value_counts_normalize_x100 col)) = 100"
proof -
  have "sum_list (map snd (value_counts_normalize_x100 col))
      = of_nat (sum_list (map snd (value_counts col))) / of_nat (length (dropna col)) * (100::rat)"
    by (simp add: normalize_eq comp_def case_prod_unfold sum_list_scaled)
  also have "\<dots> = 100" using assms by (simp add: value_counts_total)
  finally show ?thesis .
qed

section \<open>The maximum lookups\<close>

lemma first_max_argmax_from: "first_max snd (b # xs) = Some (argmax_from b xs)"
proof (induction xs arbitrary: b)
  case Nil
  then show ?case by simp
next
  case (Cons x xs)
  have "first_max snd (b # x # xs) = first_max snd ((if snd b < snd x then x else b) # xs)"
  proof (cases "snd b < snd x")
    case True
    then show ?thesis by auto
  next
    case False
    then show ?thesis by (auto simp: not_less)
  qed
  then show ?case using Cons.IH by simp
qed

lemma idxmax_first_max:
  "idxmax s = (case first_max snd s of None \<Rightarrow> Inl ValueError | Some e \<Rightarrow> Inr (fst e))"
  by (cases s) (simp_all add: idxmax_def first_max_argmax_from del: first_max.simps(2))

lemma series_max_first_max: "series_max s = map_option snd (first_max snd s)"
  by (cases s) (simp_all add: series_max_def first_max_argmax_from del: first_max.simps(2))

lemma first_max_map: "first_max g (map h xs) = map_option h (first_max (g \<circ> h) xs)"
  by (induction xs) auto

lemma first_max_None: "first_max f xs = None \<longleftrightarrow> xs = []"
proof (induction xs)
  case Nil
  then show ?case by simp
next
  case (Cons x xs)
  then show ?case by (cases xs) auto
qed

lemma first_max_split:
  "first_max f xs = Some e \<Longrightarrow>
     \<exists>pre post. xs = pre @ e # post \<and> (\<forall>x\<in>set pre. f x < f e) \<and> (\<forall>x\<in>set post. f x \<le> f e)"
proof (induction xs)
  case Nil
  then show ?case by simp
next
  case (Cons x xs)
  show ?case
  proof (cases "\<forall>y\<in>set xs. f y \<le> f x")
    case True
    with Cons.prems have "e = x" by simp
    with True have "x # xs = [] @ e # xs \<and> (\<forall>x\<in>set []. f x < f e) \<and> (\<forall>x\<in>set xs. f x \<le> f e)"
      by simp
    then show ?thesis by blast
  next
    case False
    with Cons.prems have "first_max f xs = Some e" by simp
    from Cons.IH [OF this] obtain pre post where
      s: "xs = pre @ e # post" "\<forall>x\<in>set pre. f x < f e" "\<forall>x\<in>set post. f x \<le> f e"
      by blast
    from False obtain y where "y \<in> set xs" "f x < f y" by (auto simp: not_le)
    with s have "f x < f e" by (auto intro: less_le_trans less_trans)
    with s have "x # xs = (x # pre) @ e # post \<and> (\<forall>x\<in>set (x # pre). f x < f e)
        \<and> (\<forall>x\<in>set post. f x \<le> f e)"
      by simp
    then show ?thesis by blast
  qed
qed

lemma first_max_is_max:
  assumes "first_max f xs = Some e"
  shows "e \<in> set xs" and "\<forall>x\<in>set xs. f x \<le> f e"
proof -
  from first_max_split [OF assms] obtain pre post where
    s: "xs = pre @ e # post" "\<forall>x\<in>set pre. f x < f e" "\<forall>x\<in>set post. f x \<le> f e"
    by blast
  show "e \<in> set xs" using s by simp
  show "\<forall>x\<in>set xs. f x \<le> f e" using s by (auto intro: less_imp_le)
qed

lemma first_max_least_key:
  assumes "first_max f xs = Some e" and "sorted (map g xs)"
  shows "\<forall>x\<in>set xs. f x = f e \<longrightarrow> g e \<le> g x"
proof -
  from first_max_split [OF assms(1)] obtain pre post where
    s: "xs = pre @ e # post" "\<forall>x\<in>set pre. f x < f e" "\<forall>x\<in>set post. f x \<le> f e"
    by blast
  from assms(2) s(1) have "\<forall>x\<in>set post. g e \<le> g x"
    by (simp add: sorted_append)
  with s show ?thesis by auto
qed

text \<open>The lookup \<^verbatim>\<open>t.loc[t[col].idxmax(), key]\<close> on a table with distinct labels.\<close>

lemma peak_lookup:
  assumes "distinct (map fst t)"
  shows "bind (idxmax (column f t)) (\<lambda>l. bind (loc l t) k)
       = (case first_max (f \<circ> snd) t of None \<Rightarrow> Inl ValueError | Some e \<Rightarrow> k (snd e))"
proof (cases "first_max (f \<circ> snd) t")
  case None
  then have "first_max snd (column f t) = None"
    by (simp add: first_max_None column_def)
  then show ?thesis using None by (simp add: idxmax_first_max bind_def)
next
  case (Some e)
  obtain i r where e: "e = (i, r)" by (cases e)
  have c: "column f t = map (\<lambda>p. (fst p, f (snd p))) t"
    by (simp add: column_def case_prod_unfold)
  have "first_max snd (column f t) = Some (i, f r)"
    using Some e by (simp add: c first_max_map comp_def)
  moreover have "(i, r) \<in> set t" using first_max_is_max(1) [OF Some] e by simp
  then have "map_of t i = Some r" using assms by simp
  ultimately show ?thesis using Some e by (simp add: idxmax_first_max bind_def loc_def)
qed

section \<open>The blocks in closed form\<close>

text \<open>Each block, with its peak lookup rewritten by \<open>first_max\<close>.\<close>

lemma distinct_labels_reset_index: "distinct (map fst (reset_index xs))"
  by (simp add: map_fst_reset_index)

lemma distinct_labels_day_money_table: "distinct (map fst (day_money_table rs))"
  unfolding day_money_table_def by (rule distinct_labels_sort_values)

lemma distinct_labels_day_volume_table: "distinct (map fst (day_volume_table rs))"
  unfolding day_volume_table_def by (rule distinct_labels_sort_values)

lemma distinct_labels_month_table: "distinct (map fst (month_table observed col))"
  unfolding month_table_def by (rule distinct_labels_reset_index)

lemma has_update [simp]:
  "has c (s\<lparr>sales_by_day_money := a1\<rparr>) = has c s"
  "has c (s\<lparr>dia_pico_ingresos := a2\<rparr>) = has c s"
  "has c (s\<lparr>cafe_mas_vendido_ano := a3\<rparr>) = has c s"
  "has c (s\<lparr>ventas_cafe_estrella_mes := a4\<rparr>) = has c s"
  "has c (s\<lparr>mes_pico_estrella := a5\<rparr>) = has c s"
  "has c (s\<lparr>max_ventas_estrella := a6\<rparr>) = has c s"
  "has c (s\<lparr>sales_by_hour := a7\<rparr>) = has c s"
  "has c (s\<lparr>peak_hour := a8\<rparr>) = has c s"
  "has c (s\<lparr>sales_at_peak := a9\<rparr>) = has c s"
  "has c (s\<lparr>porcentajes_cafe := a10\<rparr>) = has c s"
  "has c (s\<lparr>top_coffee_name := a11\<rparr>) = has c s"
  "has c (s\<lparr>top_coffee_percent := a12\<rparr>) = has c s"
  "has c (s\<lparr>sales_volume_by_weekday := a13\<rparr>) = has c s"
  "has c (s\<lparr>peak_sales_day := a14\<rparr>) = has c s"
  "has c (s\<lparr>sales_volume_by_month := a15\<rparr>) = has c s"
  "has c (s\<lparr>peak_sales_month := a16\<rparr>) = has c s"
  "has c (s\<lparr>peak_sales_month_volume := a17\<rparr>) = has c s"
  "has c (s\<lparr>warnings := a18\<rparr>) = has c s"
  by (simp_all add: has_def)

lemma sales_by_day_money_block_eq:
  "sales_by_day_money_block s =
     (if has ''Weekday'' s \<and> has ''Money'' s \<and> has ''Weekdaysort'' s then
        case first_max (snd \<circ> snd) (day_money_table (rows (df s))) of
          None \<Rightarrow> Inl ValueError
        | Some e \<Rightarrow> Inr (s\<lparr>sales_by_day_money := Some (day_money_table (rows (df s))),
                          dia_pico_ingresos := fst (fst (snd e))\<rparr>)
      else Inr (s\<lparr>sales_by_day_money := None, dia_pico_ingresos := ''N/A''\<rparr>))"
  by (simp add: sales_by_day_money_block_def Let_def
      peak_lookup [OF distinct_labels_day_money_table] case_prod_unfold
      split: option.split)

lemma sales_volume_by_weekday_block_eq:
  "sales_volume_by_weekday_block s =
     (if has ''Weekday'' s \<and> has ''Weekdaysort'' s then
        case first_max (snd \<circ> snd) (day_volume_table (rows (df s))) of
          None \<Rightarrow> Inr (s\<lparr>sales_volume_by_weekday := Some [], peak_sales_day := ''N/A''\<rparr>)
        | Some e \<Rightarrow> Inr (s\<lparr>sales_volume_by_weekday := Some (day_volume_table (rows (df s))),
                          peak_sales_day := fst (fst (snd e))\<rparr>)
      else Inr (s\<lparr>sales_volume_by_weekday := None, peak_sales_day := ''N/A''\<rparr>))"
  by (simp add: sales_volume_by_weekday_block_def Let_def
      peak_lookup [OF distinct_labels_day_volume_table] case_prod_unfold first_max_None
      split: option.split)

lemma sales_by_hour_block_eq:
  "sales_by_hour_block s =
     (if has ''Hour_of_Day'' s then
        case first_max snd (sort_values fst (value_counts (map Hour_of_Day (rows (df s))))) of
          None \<Rightarrow> Inr (s\<lparr>sales_by_hour := Some [], peak_hour := PyStr ''N/A'',
                          sales_at_peak := Some 0\<rparr>)
        | Some e \<Rightarrow> Inr (s\<lparr>sales_by_hour :=
                            Some (sort_values fst (value_counts (map Hour_of_Day (rows (df s))))),
                          peak_hour := PyInt (fst e), sales_at_peak := Some (snd e)\<rparr>)
      else Inr (s\<lparr>sales_by_hour := None, peak_hour := PyStr ''N/A'', sales_at_peak := Some 0\<rparr>))"
  by (simp add: sales_by_hour_block_def Let_def idxmax_first_max series_max_first_max
      bind_def first_max_None split: option.split)

lemma porcentajes_cafe_block_eq:
  "porcentajes_cafe_block s =
     (if has ''Coffee_Name'' s then
        case first_max snd (value_counts_normalize_x100 (map Coffee_Name (rows (df s)))) of
          None \<Rightarrow> Inr (s\<lparr>porcentajes_cafe := Some [], top_coffee_name := ''N/A'',
                          top_coffee_percent := Some 0\<rparr>)
        | Some e \<Rightarrow> Inr (s\<lparr>porcentajes_cafe :=
                            Some (value_counts_normalize_x100 (map Coffee_Name (rows (df s)))),
                          top_coffee_name := fst e, top_coffee_percent := Some (snd e)\<rparr>)
      else Inr (s\<lparr>porcentajes_cafe := None, top_coffee_name := ''N/A'',
                  top_coffee_percent := Some 0\<rparr>))"
  by (simp add: porcentajes_cafe_block_def Let_def idxmax_first_max series_max_first_max
      bind_def first_max_None split: option.split)


lemma map_of_counts:
  "c \<in> set cats \<Longrightarrow> map_of (map (\<lambda>c. (c, f c)) cats) c = Some (f c)"
  by (induction cats) auto

lemma map_of_observed_counts:
  "c \<in> set cats \<Longrightarrow>
     map_of (filter (\<lambda>(c, n). 0 < n) (map (\<lambda>c. (c, f c)) cats)) c
       = (if 0 < f c then Some (f c) else None)"
  by (induction cats) (auto simp: map_of_eq_None_iff image_iff)

lemma month_pipeline:
  "fillna0 (reindex cats (set_index (reset_index (groupby_size_categorical observed cats col))))
     = map (\<lambda>c. (c, count_list col (Some c))) cats"
  by (cases observed)
    (simp_all add: fillna0_def reindex_def set_index_def map_snd_reset_index
      groupby_size_categorical_def map_of_counts map_of_observed_counts)

lemma month_table_eq:
  "month_table observed col = reset_index (map (\<lambda>m. (m, count_list col (Some m))) month_order)"
  by (simp add: month_table_def month_pipeline)

lemma map_snd_month_table:
  "map snd (month_table observed col) = map (\<lambda>m. (m, count_list col (Some m))) month_order"
  by (simp add: month_table_eq map_snd_reset_index)

lemma length_month_order: "length month_order = 12"
  by (simp add: month_order_def)

lemma distinct_month_order: "distinct month_order"
  by (simp add: month_order_def)

lemma length_month_table: "length (month_table observed col) = 12"
  using arg_cong [OF map_snd_month_table, of length observed col]
  by (simp add: length_month_order)

lemma month_table_not_empty: "month_table observed col \<noteq> []"
  using length_month_table [of observed col] by auto

lemma series_max_column:
  "series_max (column f t) = map_option (f \<circ> snd) (first_max (f \<circ> snd) t)"
proof -
  have c: "column f t = map (\<lambda>p. (fst p, f (snd p))) t"
    by (simp add: column_def case_prod_unfold)
  show ?thesis
    by (simp add: series_max_first_max c first_max_map comp_def option.map_comp)
qed

lemma sales_volume_by_month_block_eq:
  "sales_volume_by_month_block observed s =
     (if has ''Month_name'' s then
        case first_max (snd \<circ> snd) (month_table observed (map Month_name (rows (df s)))) of
          None \<Rightarrow> Inr (s\<lparr>sales_volume_by_month := Some [], peak_sales_month := ''N/A'',
                          peak_sales_month_volume := Some 0\<rparr>)
        | Some e \<Rightarrow> Inr (s\<lparr>sales_volume_by_month :=
                            Some (month_table observed (map Month_name (rows (df s)))),
                          peak_sales_month := fst (snd e),
                          peak_sales_month_volume := Some (snd (snd e))\<rparr>)
      else Inr (s\<lparr>sales_volume_by_month := None, peak_sales_month := ''N/A'',
                  peak_sales_month_volume := Some 0\<rparr>))"
  by (simp add: sales_volume_by_month_block_def Let_def series_max_column
      peak_lookup [OF distinct_labels_month_table] case_prod_unfold first_max_None
      split: option.split)

lemma ventas_cafe_estrella_block_eq:
  "ventas_cafe_estrella_block observed s =
     (if has ''Coffee_Name'' s then
        case first_max snd (value_counts (map Coffee_Name (rows (df s)))) of
          None \<Rightarrow> Inl ValueError
        | Some c \<Rightarrow>
            if \<not> has ''Month_name'' s then Inl KeyError
            else
              (case first_max (snd \<circ> snd) (month_table observed (map Month_name
                     (filter (\<lambda>r. Coffee_Name r = Some (fst c)) (rows (df s))))) of
                None \<Rightarrow> Inl ValueError
              | Some e \<Rightarrow>
                  Inr (s\<lparr>cafe_mas_vendido_ano := fst c,
                         ventas_cafe_estrella_mes := Some (month_table observed (map Month_name
                           (filter (\<lambda>r. Coffee_Name r = Some (fst c)) (rows (df s))))),
                         mes_pico_estrella := fst (snd e),
                         max_ventas_estrella := Some (snd (snd e))\<rparr>))
      else Inr (s\<lparr>cafe_mas_vendido_ano := ''N/A'', ventas_cafe_estrella_mes := None,
                  mes_pico_estrella := ''N/A'', max_ventas_estrella := Some 0\<rparr>))"
  apply (simp only: ventas_cafe_estrella_block_def Let_def
      peak_lookup [OF distinct_labels_month_table])
  apply (simp add: idxmax_first_max bind_def series_max_column case_prod_unfold
      split: option.split)
  done

text \<open>The order of the tables, and when they are empty.\<close>

lemma group_keys_empty_iff: "group_keys key rs = [] \<longleftrightarrow> (\<forall>r\<in>set rs. key r = None)"
proof -
  have "group_keys key rs = [] \<longleftrightarrow> set (group_keys key rs) = {}" by simp
  also have "\<dots> \<longleftrightarrow> (\<forall>r\<in>set rs. key r = None)"
    unfolding set_group_keys by auto (metis option.exhaust)
  finally show ?thesis .
qed

lemma day_money_table_empty_iff:
  "day_money_table rs = [] \<longleftrightarrow> (\<forall>r\<in>set rs. day_key r = None)"
proof -
  have "day_money_table rs = [] \<longleftrightarrow> length (day_money_table rs) = 0" by simp
  also have "\<dots> \<longleftrightarrow> length (group_keys day_key rs) = 0"
    by (simp add: day_money_table_def sort_values_def reset_index_def groupby_sum_def)
  finally show ?thesis by (simp add: group_keys_empty_iff)
qed

lemma day_volume_table_empty_iff:
  "day_volume_table rs = [] \<longleftrightarrow> (\<forall>r\<in>set rs. day_key r = None)"
proof -
  have "day_volume_table rs = [] \<longleftrightarrow> length (day_volume_table rs) = 0" by simp
  also have "\<dots> \<longleftrightarrow> length (group_keys day_key rs) = 0"
    by (simp add: day_volume_table_def sort_values_def reset_index_def groupby_size_def)
  finally show ?thesis by (simp add: group_keys_empty_iff)
qed

lemma sorted_day_money_table: "sorted (map weekday_sort (day_money_table rs))"
proof -
  have "weekday_sort = (\<lambda>(i, k, m). snd k)"
    by (simp add: fun_eq_iff)
  then show ?thesis
    unfolding day_money_table_def using sorted_sort_values by metis
qed

lemma sorted_day_volume_table: "sorted (map weekday_sort (day_volume_table rs))"
proof -
  have "weekday_sort = (\<lambda>(i, k, m). snd k)"
    by (simp add: fun_eq_iff)
  then show ?thesis
    unfolding day_volume_table_def using sorted_sort_values by metis
qed

lemma first_max_exists: "xs \<noteq> [] \<Longrightarrow> \<exists>e. first_max f xs = Some e"
  using first_max_None [of f xs] by (cases "first_max f xs") auto

lemma map_key_month_table: "map entry_key (month_table observed col) = month_order"
  using arg_cong [OF map_snd_month_table, of "map fst" observed col]
  by (simp add: comp_def)

lemma sorted_hour_table: "sorted (map fst (sort_values fst (value_counts col)))"
  by (rule sorted_sort_values)

lemma sort_values_empty_iff: "sort_values by t = [] \<longleftrightarrow> t = []"
  using length_sort [of "by" t] unfolding sort_values_def
  by (metis length_0_conv)

lemma hour_table_empty_iff: "sort_values fst (value_counts col) = [] \<longleftrightarrow> dropna col = []"
  by (simp add: sort_values_empty_iff value_counts_empty_iff)

lemma sorted_desc_shares: "sorted (rev (map snd (value_counts_normalize_x100 col)))"
proof -
  let ?g = "\<lambda>c::nat. of_nat c / of_nat (length (dropna col)) * (100::rat)"
  have m: "mono ?g"
    by (rule monoI) (simp add: divide_right_mono)
  have "map snd (value_counts_normalize_x100 col) = map ?g (map snd (value_counts col))"
    by (simp add: normalize_eq comp_def case_prod_unfold)
  then have "rev (map snd (value_counts_normalize_x100 col))
      = map ?g (rev (map snd (value_counts col)))"
    by (simp add: rev_map)
  moreover have "sorted (map ?g (rev (map snd (value_counts col))))"
    using sorted_desc_value_counts [of col] m
    by (intro sorted_map_mono) (auto intro: mono_on_subset mono_imp_mono_on)
  ultimately show ?thesis by simp
qed

text \<open>What each block stores when its columns exist and some row has the keys it
  groups by.\<close>

lemma revenue_by_weekday_result:
  assumes "has ''Weekday'' s" "has ''Money'' s" "has ''Weekdaysort'' s"
    and "\<exists>r\<in>set (rows (df s)). day_key r \<noteq> None"
  shows "\<exists>e. first_max entry_value (day_money_table (rows (df s))) = Some e
     \<and> sales_by_day_money_block s
         = Inr (s\<lparr>sales_by_day_money := Some (day_money_table (rows (df s))),
                  dia_pico_ingresos := weekday_name e\<rparr>)"
proof -
  have "day_money_table (rows (df s)) \<noteq> []"
    using assms(4) by (simp add: day_money_table_empty_iff)
  then obtain e where "first_max entry_value (day_money_table (rows (df s))) = Some e"
    using first_max_exists by blast
  then show ?thesis using assms(1-3) by (simp add: sales_by_day_money_block_eq)
qed

lemma volume_by_weekday_result:
  assumes "has ''Weekday'' s" "has ''Weekdaysort'' s"
    and "\<exists>r\<in>set (rows (df s)). day_key r \<noteq> None"
  shows "\<exists>e. first_max entry_value (day_volume_table (rows (df s))) = Some e
     \<and> sales_volume_by_weekday_block s
         = Inr (s\<lparr>sales_volume_by_weekday := Some (day_volume_table (rows (df s))),
                  peak_sales_day := weekday_name e\<rparr>)"
proof -
  have "day_volume_table (rows (df s)) \<noteq> []"
    using assms(3) by (simp add: day_volume_table_empty_iff)
  then obtain e where "first_max entry_value (day_volume_table (rows (df s))) = Some e"
    using first_max_exists by blast
  then show ?thesis using assms(1-2) by (simp add: sales_volume_by_weekday_block_eq)
qed

lemma volume_by_month_result:
  assumes "has ''Month_name'' s"
  shows "\<exists>e. first_max entry_value (month_table observed (map Month_name (rows (df s)))) = Some e
     \<and> sales_volume_by_month_block observed s
         = Inr (s\<lparr>sales_volume_by_month :=
                    Some (month_table observed (map Month_name (rows (df s)))),
                  peak_sales_month := entry_key e,
                  peak_sales_month_volume := Some (entry_value e)\<rparr>)"
proof -
  obtain e where "first_max entry_value (month_table observed (map Month_name (rows (df s)))) = Some e"
    using first_max_exists [OF month_table_not_empty] by blast
  then show ?thesis using assms by (simp add: sales_volume_by_month_block_eq)
qed

lemma top_product_trend_result:
  assumes "has ''Coffee_Name'' s" "has ''Month_name'' s"
    and "\<exists>r\<in>set (rows (df s)). Coffee_Name r \<noteq> None"
  shows "\<exists>c e. first_max snd (value_counts (map Coffee_Name (rows (df s)))) = Some c
     \<and> first_max entry_value (month_table observed (map Month_name
           (filter (\<lambda>r. Coffee_Name r = Some (fst c)) (rows (df s))))) = Some e
     \<and> ventas_cafe_estrella_block observed s
         = Inr (s\<lparr>cafe_mas_vendido_ano := fst c,
                  ventas_cafe_estrella_mes := Some (month_table observed (map Month_name
                    (filter (\<lambda>r. Coffee_Name r = Some (fst c)) (rows (df s))))),
                  mes_pico_estrella := entry_key e,
                  max_ventas_estrella := Some (entry_value e)\<rparr>)"
proof -
  have "dropna (map Coffee_Name (rows (df s))) \<noteq> []"
    using assms(3) by (auto simp: dropna_empty_iff)
  then have "value_counts (map Coffee_Name (rows (df s))) \<noteq> []"
    by (simp add: value_counts_empty_iff)
  then obtain c where c: "first_max snd (value_counts (map Coffee_Name (rows (df s)))) = Some c"
    using first_max_exists by blast
  obtain e where e: "first_max entry_value (month_table observed (map Month_name
           (filter (\<lambda>r. Coffee_Name r = Some (fst c)) (rows (df s))))) = Some e"
    using first_max_exists [OF month_table_not_empty] by blast
  have "ventas_cafe_estrella_block observed s
         = Inr (s\<lparr>cafe_mas_vendido_ano := fst c,
                  ventas_cafe_estrella_mes := Some (month_table observed (map Month_name
                    (filter (\<lambda>r. Coffee_Name r = Some (fst c)) (rows (df s))))),
                  mes_pico_estrella := entry_key e,
                  max_ventas_estrella := Some (entry_value e)\<rparr>)"
    using assms(1-2) c e by (simp add: ventas_cafe_estrella_block_eq)
  with c e show ?thesis by blast
qed

lemma volume_by_hour_result:
  assumes "has ''Hour_of_Day'' s"
    and "\<exists>r\<in>set (rows (df s)). Hour_of_Day r \<noteq> None"
  shows "\<exists>e. first_max snd (sort_values fst (value_counts (map Hour_of_Day (rows (df s))))) = Some e
     \<and> sales_by_hour_block s
         = Inr (s\<lparr>sales_by_hour :=
                    Some (sort_values fst (value_counts (map Hour_of_Day (rows (df s))))),
                  peak_hour := PyInt (fst e), sales_at_peak := Some (snd e)\<rparr>)"
proof -
  have "dropna (map Hour_of_Day (rows (df s))) \<noteq> []"
    using assms(2) by (auto simp: dropna_empty_iff)
  then have "sort_values fst (value_counts (map Hour_of_Day (rows (df s)))) \<noteq> []"
    by (simp add: hour_table_empty_iff)
  then obtain e where
    "first_max snd (sort_values fst (value_counts (map Hour_of_Day (rows (df s))))) = Some e"
    using first_max_exists by blast
  then show ?thesis using assms(1) by (simp add: sales_by_hour_block_eq)
qed

lemma product_share_result:
  assumes "has ''Coffee_Name'' s"
    and "\<exists>r\<in>set (rows (df s)). Coffee_Name r \<noteq> None"
  shows "\<exists>e. first_max snd (value_counts_normalize_x100 (map Coffee_Name (rows (df s)))) = Some e
     \<and> porcentajes_cafe_block s
         = Inr (s\<lparr>porcentajes_cafe :=
                    Some (value_counts_normalize_x100 (map Coffee_Name (rows (df s)))),
                  top_coffee_name := fst e, top_coffee_percent := Some (snd e)\<rparr>)"
proof -
  have "dropna (map Coffee_Name (rows (df s))) \<noteq> []"
    using assms(2) by (auto simp: dropna_empty_iff)
  then have "value_counts_normalize_x100 (map Coffee_Name (rows (df s))) \<noteq> []"
    by (simp add: normalize_empty_iff)
  then obtain e where
    "first_max snd (value_counts_normalize_x100 (map Coffee_Name (rows (df s)))) = Some e"
    using first_max_exists by blast
  then show ?thesis using assms(1) by (simp add: porcentajes_cafe_block_eq)
qed

lemma df_fresh: "df (fresh d) = d"
  by (simp add: fresh_def)

section \<open>Missing columns and empty tables\<close>

text \<open>
  C1. Claimed: when a column an aggregation needs is missing, that aggregation alone is
  unavailable and nothing is raised; in particular the monthly trend of the best-selling
  coffee is unavailable on a table with \<^verbatim>\<open>Coffee_Name\<close> and without \<^verbatim>\<open>Month_name\<close>.
  On such a table block 2, which tests only \<^verbatim>\<open>Coffee_Name\<close>, raises \<^verbatim>\<open>KeyError\<close> in
  \<^verbatim>\<open>groupby('Month_name')\<close>, and so does the conversion of line 47 before any block
  runs, so the whole script ends there.
\<close>

theorem missing_month_column_raises:
  "ventas_cafe_estrella_block observed (fresh no_month_frame) = Inl KeyError
   \<and> normalize (fresh no_month_frame) = Inl KeyError
   \<and> script observed (fresh no_month_frame) = Inl KeyError
   \<and> aggregator observed (fresh no_month_frame) = Inl KeyError"
proof -
  have b1: "sales_by_day_money_block (fresh no_month_frame)
      = Inr ((fresh no_month_frame)\<lparr>sales_by_day_money := Some [(0, (''Monday'', 1), 10)],
               dia_pico_ingresos := ''Monday''\<rparr>)"
    by (simp add: sales_by_day_money_block_def fresh_def no_month_frame_def has_def
        day_money_table_def groupby_sum_def group_keys_def day_key_def reset_index_def sort_values_def
        column_def idxmax_def loc_def bind_def)
  have b2: "ventas_cafe_estrella_block observed s = Inl KeyError"
    if "df s = no_month_frame" for s
    using that
    by (simp add: ventas_cafe_estrella_block_def no_month_frame_def has_def
        value_counts_def unique_def sort_values_desc_def idxmax_def bind_def)
  have n: "normalize (fresh no_month_frame) = Inl KeyError"
    by (simp add: normalize_def fresh_def no_month_frame_def has_def)
  have "ventas_cafe_estrella_block observed (fresh no_month_frame) = Inl KeyError"
    by (rule b2) (rule df_fresh)
  moreover have "script observed (fresh no_month_frame) = Inl KeyError"
    by (simp add: script_def n bind_def)
  moreover have "aggregator observed (fresh no_month_frame) = Inl KeyError"
    by (simp add: aggregator_def b1 bind_def b2 df_fresh)
  ultimately show ?thesis using n by simp
qed

text \<open>
  C2. Claimed: on a table with all columns and no rows every aggregation gives an empty
  or zero-filled table, every peak fact is the "not applicable" sentinel and nothing is
  raised. Blocks 1 and 2 call \<^verbatim>\<open>idxmax\<close> without the emptiness test of blocks 3 to 6, so
  each raises \<^verbatim>\<open>ValueError\<close> on that table, and the script ends in block 1. Block 6, run
  alone, reports January with volume 0 as its peak, not the sentinel.
\<close>

theorem empty_table_raises:
  "sales_by_day_money_block (fresh empty_frame) = Inl ValueError
   \<and> ventas_cafe_estrella_block observed (fresh empty_frame) = Inl ValueError
   \<and> aggregator observed (fresh empty_frame) = Inl ValueError
   \<and> script observed (fresh empty_frame) = Inl ValueError"
proof -
  have b1: "sales_by_day_money_block s = Inl ValueError" if "df s = empty_frame" for s
    using that
    by (simp add: sales_by_day_money_block_def empty_frame_def all_columns_def has_def
        day_money_table_def groupby_sum_def group_keys_def reset_index_def sort_values_def column_def
        idxmax_def bind_def)
  have b2: "ventas_cafe_estrella_block observed (fresh empty_frame) = Inl ValueError"
    by (simp add: ventas_cafe_estrella_block_def fresh_def empty_frame_def all_columns_def
        has_def value_counts_def unique_def sort_values_desc_def idxmax_def bind_def)
  have n: "normalize (fresh empty_frame) = Inr (fresh empty_frame)"
    by (simp add: normalize_def fresh_def empty_frame_def all_columns_def has_def
        Categorical_def month_order_def)
  have "sales_by_day_money_block (fresh empty_frame) = Inl ValueError"
    by (rule b1) (rule df_fresh)
  moreover have "aggregator observed (fresh empty_frame) = Inl ValueError"
    by (simp add: aggregator_def bind_def b1 df_fresh)
  moreover have "script observed (fresh empty_frame) = Inl ValueError"
    by (simp add: script_def n aggregator_def bind_def b1 df_fresh)
  ultimately show ?thesis using b2 by simp
qed

section \<open>The scenario of three sales\<close>

lemma latte_counts:
  "value_counts [Some ''Latte'', Some ''Latte'', Some ''Espresso'']
     = [(''Latte'', 2), (''Espresso'', 1)]"
  by (simp add: value_counts_def unique_def sort_values_desc_def)

lemma latte_shares:
  "value_counts_normalize_x100 [Some ''Latte'', Some ''Latte'', Some ''Espresso'']
     = [(''Latte'', 200 / 3), (''Espresso'', 100 / 3)]"
  by (simp add: value_counts_normalize_x100_def latte_counts)

lemma floor_shares: "\<lfloor>2000 / 3 :: rat\<rfloor> = 666" "\<lfloor>1000 / 3 :: rat\<rfloor> = 333"
  by (simp_all add: floor_unique)

lemma format_1f_shares: "format_1f (200 / 3) = 667" "format_1f (100 / 3) = 333"
  by (simp_all add: format_1f_def Let_def floor_shares)

text \<open>
  C7. On a table whose \<^verbatim>\<open>Coffee_Name\<close> column is Latte, Latte, Espresso, block 4 leaves the
  table of shares Latte 200/3, Espresso 100/3, in this order (shown with one decimal:
  66.7 and 33.3), and Latte as the coffee with the largest share; the best-selling
  coffee of line 75 is Latte, and block 2 stores it when the month column exists.
\<close>

theorem latte_scenario:
  assumes "has ''Coffee_Name'' s"
    and "map Coffee_Name (rows (df s)) = [Some ''Latte'', Some ''Latte'', Some ''Espresso'']"
  shows "porcentajes_cafe_block s
       = Inr (s\<lparr>porcentajes_cafe := Some [(''Latte'', 200 / 3), (''Espresso'', 100 / 3)],
                top_coffee_name := ''Latte'', top_coffee_percent := Some (200 / 3)\<rparr>)
     \<and> format_1f (200 / 3) = 667 \<and> format_1f (100 / 3) = 333
     \<and> idxmax (value_counts (map Coffee_Name (rows (df s)))) = Inr ''Latte''
     \<and> (has ''Month_name'' s \<longrightarrow>
          (\<exists>s'. ventas_cafe_estrella_block observed s = Inr s'
                \<and> cafe_mas_vendido_ano s' = ''Latte''))"
proof -
  have a: "porcentajes_cafe_block s
       = Inr (s\<lparr>porcentajes_cafe := Some [(''Latte'', 200 / 3), (''Espresso'', 100 / 3)],
                top_coffee_name := ''Latte'', top_coffee_percent := Some (200 / 3)\<rparr>)"
    using assms by (simp add: porcentajes_cafe_block_eq latte_shares)
  have b: "idxmax (value_counts (map Coffee_Name (rows (df s)))) = Inr ''Latte''"
    using assms by (simp add: latte_counts idxmax_first_max)
  have c: "\<exists>s'. ventas_cafe_estrella_block observed s = Inr s'
                \<and> cafe_mas_vendido_ano s' = ''Latte''" if "has ''Month_name'' s"
    using assms that
    by (simp add: ventas_cafe_estrella_block_eq latte_counts first_max_None
        month_table_not_empty split: option.split)
  show ?thesis using a b c format_1f_shares by simp
qed

theorem latte_scenario_witness:
  "has ''Coffee_Name'' (fresh latte_frame)
   \<and> map Coffee_Name (rows (df (fresh latte_frame)))
       = [Some ''Latte'', Some ''Latte'', Some ''Espresso'']
   \<and> has ''Month_name'' (fresh latte_frame)
   \<and> porcentajes_cafe (projr (porcentajes_cafe_block (fresh latte_frame)))
       = Some [(''Latte'', 200 / 3), (''Espresso'', 100 / 3)]
   \<and> top_coffee_name (projr (porcentajes_cafe_block (fresh latte_frame))) = ''Latte''
   \<and> (\<exists>s'. ventas_cafe_estrella_block True (fresh latte_frame) = Inr s'
            \<and> cafe_mas_vendido_ano s' = ''Latte'')"
proof -
  have h1: "has ''Coffee_Name'' (fresh latte_frame)"
    by (simp add: has_def df_fresh latte_frame_def all_columns_def)
  have h2: "map Coffee_Name (rows (df (fresh latte_frame)))
       = [Some ''Latte'', Some ''Latte'', Some ''Espresso'']"
    by (simp add: df_fresh latte_frame_def sale_def)
  have h3: "has ''Month_name'' (fresh latte_frame)"
    by (simp add: has_def df_fresh latte_frame_def all_columns_def)
  show ?thesis
    using latte_scenario [OF h1 h2, of True] h1 h2 h3 by simp
qed

section \<open>Peak facts\<close>

lemma tie_break:
  assumes "first_max entry_value t = Some e" and "sorted (map weekday_sort t)"
  shows "\<forall>x\<in>set t. entry_value x \<le> entry_value e
           \<and> (entry_value x = entry_value e \<longrightarrow> weekday_sort e \<le> weekday_sort x)"
  using first_max_is_max(2) [OF assms(1)] first_max_least_key [OF assms] by blast

text \<open>
  C4. The peak fact of every aggregate table is the key of the first entry, in the order
  of the table, that holds the maximum measure. For the revenue table, which is in
  ascending order of \<^verbatim>\<open>Weekdaysort\<close>, the peak is therefore the weekday with the smallest
  sort key among those with the maximum revenue; the same holds for the volume by
  weekday. The month tables are in calendar order, the hours ascending, the shares
  descending; the best-selling coffee is the first maximum of \<^verbatim>\<open>value_counts()\<close>. Each part
  is stated for a table whose columns exist and that has a row to group (the other tables
  are the subject of C1 and C2).
\<close>

theorem peak_is_first_maximum:
  "(has ''Weekday'' s \<and> has ''Money'' s \<and> has ''Weekdaysort'' s
      \<and> (\<exists>r\<in>set (rows (df s)). day_key r \<noteq> None) \<longrightarrow>
      (\<exists>s' t e. sales_by_day_money_block s = Inr s' \<and> sales_by_day_money s' = Some t
         \<and> first_max entry_value t = Some e \<and> dia_pico_ingresos s' = weekday_name e
         \<and> sorted (map weekday_sort t)
         \<and> (\<forall>x\<in>set t. entry_value x \<le> entry_value e
               \<and> (entry_value x = entry_value e \<longrightarrow> weekday_sort e \<le> weekday_sort x))))
   \<and> (has ''Weekday'' s \<and> has ''Weekdaysort'' s
      \<and> (\<exists>r\<in>set (rows (df s)). day_key r \<noteq> None) \<longrightarrow>
      (\<exists>s' t e. sales_volume_by_weekday_block s = Inr s' \<and> sales_volume_by_weekday s' = Some t
         \<and> first_max entry_value t = Some e \<and> peak_sales_day s' = weekday_name e
         \<and> sorted (map weekday_sort t)
         \<and> (\<forall>x\<in>set t. entry_value x \<le> entry_value e
               \<and> (entry_value x = entry_value e \<longrightarrow> weekday_sort e \<le> weekday_sort x))))
   \<and> (has ''Month_name'' s \<longrightarrow>
      (\<exists>s' t e. sales_volume_by_month_block observed s = Inr s'
         \<and> sales_volume_by_month s' = Some t \<and> map entry_key t = month_order
         \<and> first_max entry_value t = Some e \<and> peak_sales_month s' = entry_key e
         \<and> peak_sales_month_volume s' = Some (entry_value e)))
   \<and> (has ''Coffee_Name'' s \<and> has ''Month_name'' s
      \<and> (\<exists>r\<in>set (rows (df s)). Coffee_Name r \<noteq> None) \<longrightarrow>
      (\<exists>s' c t e. ventas_cafe_estrella_block observed s = Inr s'
         \<and> first_max snd (value_counts (map Coffee_Name (rows (df s)))) = Some c
         \<and> cafe_mas_vendido_ano s' = fst c
         \<and> ventas_cafe_estrella_mes s' = Some t \<and> map entry_key t = month_order
         \<and> first_max entry_value t = Some e \<and> mes_pico_estrella s' = entry_key e
         \<and> max_ventas_estrella s' = Some (entry_value e)))
   \<and> (has ''Hour_of_Day'' s \<and> (\<exists>r\<in>set (rows (df s)). Hour_of_Day r \<noteq> None) \<longrightarrow>
      (\<exists>s' t e. sales_by_hour_block s = Inr s' \<and> sales_by_hour s' = Some t
         \<and> sorted (map fst t)
         \<and> first_max snd t = Some e \<and> peak_hour s' = PyInt (fst e)
         \<and> sales_at_peak s' = Some (snd e)))
   \<and> (has ''Coffee_Name'' s \<and> (\<exists>r\<in>set (rows (df s)). Coffee_Name r \<noteq> None) \<longrightarrow>
      (\<exists>s' t e. porcentajes_cafe_block s = Inr s' \<and> porcentajes_cafe s' = Some t
         \<and> sorted (rev (map snd t))
         \<and> first_max snd t = Some e \<and> top_coffee_name s' = fst e
         \<and> top_coffee_percent s' = Some (snd e)))"
proof (intro conjI impI)
  assume a: "has ''Weekday'' s \<and> has ''Money'' s \<and> has ''Weekdaysort'' s
      \<and> (\<exists>r\<in>set (rows (df s)). day_key r \<noteq> None)"
  then obtain e where e: "first_max entry_value (day_money_table (rows (df s))) = Some e"
    and b: "sales_by_day_money_block s
         = Inr (s\<lparr>sales_by_day_money := Some (day_money_table (rows (df s))),
                  dia_pico_ingresos := weekday_name e\<rparr>)"
    using revenue_by_weekday_result [of s] by blast
  show "\<exists>s' t e. sales_by_day_money_block s = Inr s' \<and> sales_by_day_money s' = Some t
         \<and> first_max entry_value t = Some e \<and> dia_pico_ingresos s' = weekday_name e
         \<and> sorted (map weekday_sort t)
         \<and> (\<forall>x\<in>set t. entry_value x \<le> entry_value e
               \<and> (entry_value x = entry_value e \<longrightarrow> weekday_sort e \<le> weekday_sort x))"
    apply (rule exI [of _ "s\<lparr>sales_by_day_money := Some (day_money_table (rows (df s))),
                  dia_pico_ingresos := weekday_name e\<rparr>"])
    apply (rule exI [of _ "day_money_table (rows (df s))"])
    apply (rule exI [of _ e])
    using b e sorted_day_money_table [of "rows (df s)"]
      tie_break [OF e sorted_day_money_table]
    apply simp
    done
next
  assume a: "has ''Weekday'' s \<and> has ''Weekdaysort'' s
      \<and> (\<exists>r\<in>set (rows (df s)). day_key r \<noteq> None)"
  then obtain e where e: "first_max entry_value (day_volume_table (rows (df s))) = Some e"
    and b: "sales_volume_by_weekday_block s
         = Inr (s\<lparr>sales_volume_by_weekday := Some (day_volume_table (rows (df s))),
                  peak_sales_day := weekday_name e\<rparr>)"
    using volume_by_weekday_result [of s] by blast
  show "\<exists>s' t e. sales_volume_by_weekday_block s = Inr s' \<and> sales_volume_by_weekday s' = Some t
         \<and> first_max entry_value t = Some e \<and> peak_sales_day s' = weekday_name e
         \<and> sorted (map weekday_sort t)
         \<and> (\<forall>x\<in>set t. entry_value x \<le> entry_value e
               \<and> (entry_value x = entry_value e \<longrightarrow> weekday_sort e \<le> weekday_sort x))"
    apply (rule exI [of _ "s\<lparr>sales_volume_by_weekday := Some (day_volume_table (rows (df s))),
                  peak_sales_day := weekday_name e\<rparr>"])
    apply (rule exI [of _ "day_volume_table (rows (df s))"])
    apply (rule exI [of _ e])
    using b e sorted_day_volume_table [of "rows (df s)"]
      tie_break [OF e sorted_day_volume_table]
    apply simp
    done
next
  assume "has ''Month_name'' s"
  from volume_by_month_result [OF this, of observed] obtain e where
    e: "first_max entry_value (month_table observed (map Month_name (rows (df s)))) = Some e"
    and b: "sales_volume_by_month_block observed s
         = Inr (s\<lparr>sales_volume_by_month :=
                    Some (month_table observed (map Month_name (rows (df s)))),
                  peak_sales_month := entry_key e,
                  peak_sales_month_volume := Some (entry_value e)\<rparr>)"
    by blast
  show "\<exists>s' t e. sales_volume_by_month_block observed s = Inr s'
         \<and> sales_volume_by_month s' = Some t \<and> map entry_key t = month_order
         \<and> first_max entry_value t = Some e \<and> peak_sales_month s' = entry_key e
         \<and> peak_sales_month_volume s' = Some (entry_value e)"
    apply (rule exI [of _ "s\<lparr>sales_volume_by_month :=
                    Some (month_table observed (map Month_name (rows (df s)))),
                  peak_sales_month := entry_key e,
                  peak_sales_month_volume := Some (entry_value e)\<rparr>"])
    apply (rule exI [of _ "month_table observed (map Month_name (rows (df s)))"])
    apply (rule exI [of _ e])
    using b e map_key_month_table [of observed "map Month_name (rows (df s))"]
    apply simp
    done
next
  assume "has ''Coffee_Name'' s \<and> has ''Month_name'' s
      \<and> (\<exists>r\<in>set (rows (df s)). Coffee_Name r \<noteq> None)"
  then obtain c e where
    c: "first_max snd (value_counts (map Coffee_Name (rows (df s)))) = Some c"
    and e: "first_max entry_value (month_table observed (map Month_name
           (filter (\<lambda>r. Coffee_Name r = Some (fst c)) (rows (df s))))) = Some e"
    and b: "ventas_cafe_estrella_block observed s
         = Inr (s\<lparr>cafe_mas_vendido_ano := fst c,
                  ventas_cafe_estrella_mes := Some (month_table observed (map Month_name
                    (filter (\<lambda>r. Coffee_Name r = Some (fst c)) (rows (df s))))),
                  mes_pico_estrella := entry_key e,
                  max_ventas_estrella := Some (entry_value e)\<rparr>)"
    using top_product_trend_result [of s observed] by blast
  show "\<exists>s' c t e. ventas_cafe_estrella_block observed s = Inr s'
         \<and> first_max snd (value_counts (map Coffee_Name (rows (df s)))) = Some c
         \<and> cafe_mas_vendido_ano s' = fst c
         \<and> ventas_cafe_estrella_mes s' = Some t \<and> map entry_key t = month_order
         \<and> first_max entry_value t = Some e \<and> mes_pico_estrella s' = entry_key e
         \<and> max_ventas_estrella s' = Some (entry_value e)"
    apply (rule exI [of _ "s\<lparr>cafe_mas_vendido_ano := fst c,
                  ventas_cafe_estrella_mes := Some (month_table observed (map Month_name
                    (filter (\<lambda>r. Coffee_Name r = Some (fst c)) (rows (df s))))),
                  mes_pico_estrella := entry_key e,
                  max_ventas_estrella := Some (entry_value e)\<rparr>"])
    apply (rule exI [of _ c])
    apply (rule exI [of _ "month_table observed (map Month_name
                    (filter (\<lambda>r. Coffee_Name r = Some (fst c)) (rows (df s))))"])
    apply (rule exI [of _ e])
    using b c e map_key_month_table [of observed "map Month_name
                    (filter (\<lambda>r. Coffee_Name r = Some (fst c)) (rows (df s)))"]
    apply simp
    done
next
  assume "has ''Hour_of_Day'' s \<and> (\<exists>r\<in>set (rows (df s)). Hour_of_Day r \<noteq> None)"
  then obtain e where
    e: "first_max snd (sort_values fst (value_counts (map Hour_of_Day (rows (df s))))) = Some e"
    and b: "sales_by_hour_block s
         = Inr (s\<lparr>sales_by_hour :=
                    Some (sort_values fst (value_counts (map Hour_of_Day (rows (df s))))),
                  peak_hour := PyInt (fst e), sales_at_peak := Some (snd e)\<rparr>)"
    using volume_by_hour_result [of s] by blast
  show "\<exists>s' t e. sales_by_hour_block s = Inr s' \<and> sales_by_hour s' = Some t
         \<and> sorted (map fst t)
         \<and> first_max snd t = Some e \<and> peak_hour s' = PyInt (fst e)
         \<and> sales_at_peak s' = Some (snd e)"
    apply (rule exI [of _ "s\<lparr>sales_by_hour :=
                    Some (sort_values fst (value_counts (map Hour_of_Day (rows (df s))))),
                  peak_hour := PyInt (fst e), sales_at_peak := Some (snd e)\<rparr>"])
    apply (rule exI [of _ "sort_values fst (value_counts (map Hour_of_Day (rows (df s))))"])
    apply (rule exI [of _ e])
    using b e sorted_hour_table [of "map Hour_of_Day (rows (df s))"]
    apply simp
    done
next
  assume "has ''Coffee_Name'' s \<and> (\<exists>r\<in>set (rows (df s)). Coffee_Name r \<noteq> None)"
  then obtain e where
    e: "first_max snd (value_counts_normalize_x100 (map Coffee_Name (rows (df s)))) = Some e"
    and b: "porcentajes_cafe_block s
         = Inr (s\<lparr>porcentajes_cafe :=
                    Some (value_counts_normalize_x100 (map Coffee_Name (rows (df s)))),
                  top_coffee_name := fst e, top_coffee_percent := Some (snd e)\<rparr>)"
    using product_share_result [of s] by blast
  show "\<exists>s' t e. porcentajes_cafe_block s = Inr s' \<and> porcentajes_cafe s' = Some t
         \<and> sorted (rev (map snd t))
         \<and> first_max snd t = Some e \<and> top_coffee_name s' = fst e
         \<and> top_coffee_percent s' = Some (snd e)"
    apply (rule exI [of _ "s\<lparr>porcentajes_cafe :=
                    Some (value_counts_normalize_x100 (map Coffee_Name (rows (df s)))),
                  top_coffee_name := fst e, top_coffee_percent := Some (snd e)\<rparr>"])
    apply (rule exI [of _ "value_counts_normalize_x100 (map Coffee_Name (rows (df s)))"])
    apply (rule exI [of _ e])
    using b e sorted_desc_shares [of "map Coffee_Name (rows (df s))"]
    apply simp
    done
qed


lemma tie_frame_has:
  "has ''Weekday'' (fresh tie_frame)" "has ''Money'' (fresh tie_frame)"
  "has ''Weekdaysort'' (fresh tie_frame)" "has ''Month_name'' (fresh tie_frame)"
  "has ''Coffee_Name'' (fresh tie_frame)" "has ''Hour_of_Day'' (fresh tie_frame)"
  by (simp_all add: has_def df_fresh tie_frame_def all_columns_def)

lemma tie_frame_rows:
  "rows (df (fresh tie_frame))
     = [sale ''Tuesday'' 2 10 9 ''May'' ''Latte'', sale ''Monday'' 1 10 8 ''March'' ''Espresso'']"
  by (simp add: df_fresh tie_frame_def)

lemma tie_frame_keys:
  "\<exists>r\<in>set (rows (df (fresh tie_frame))). day_key r \<noteq> None"
  "\<exists>r\<in>set (rows (df (fresh tie_frame))). Coffee_Name r \<noteq> None"
  "\<exists>r\<in>set (rows (df (fresh tie_frame))). Hour_of_Day r \<noteq> None"
  by (simp_all add: tie_frame_rows sale_def day_key_def)

lemma tie_day_money_table:
  "day_money_table (rows (df (fresh tie_frame)))
     = [(0, (''Monday'', 1), 10), (1, (''Tuesday'', 2), 10)]"
  by (simp add: tie_frame_rows day_money_table_def sale_def groupby_sum_def group_keys_def
      day_key_def reset_index_def sort_values_def less_eq_prod_def less_prod_def)

lemma tie_day_volume_table:
  "day_volume_table (rows (df (fresh tie_frame)))
     = [(0, (''Monday'', 1), 1), (1, (''Tuesday'', 2), 1)]"
  by (simp add: tie_frame_rows day_volume_table_def sale_def groupby_size_def group_keys_def
      day_key_def reset_index_def sort_values_def less_eq_prod_def less_prod_def)

lemma tie_coffee_counts:
  "value_counts (map Coffee_Name (rows (df (fresh tie_frame))))
     = [(''Latte'', 1), (''Espresso'', 1)]"
  by (simp add: tie_frame_rows sale_def value_counts_def unique_def sort_values_desc_def)

lemma tie_hour_table:
  "sort_values fst (value_counts (map Hour_of_Day (rows (df (fresh tie_frame)))))
     = [(8, 1), (9, 1)]"
  by (simp add: tie_frame_rows sale_def value_counts_def unique_def sort_values_desc_def
      sort_values_def)

lemma tie_shares:
  "value_counts_normalize_x100 (map Coffee_Name (rows (df (fresh tie_frame))))
     = [(''Latte'', 50), (''Espresso'', 50)]"
  by (simp add: value_counts_normalize_x100_def tie_coffee_counts)

lemma tie_month_peak:
  "first_max entry_value (month_table True (map Month_name (rows (df (fresh tie_frame)))))
     = Some (2, ''March'', 1)"
  by (simp add: tie_frame_rows sale_def month_table_eq month_order_def reset_index_def upt_rec)

lemma tie_trend_peak:
  "first_max entry_value (month_table True (map Month_name
      (filter (\<lambda>r. Coffee_Name r = Some ''Latte'') (rows (df (fresh tie_frame))))))
     = Some (4, ''May'', 1)"
  by (simp add: tie_frame_rows sale_def month_table_eq month_order_def reset_index_def upt_rec)

theorem peak_is_first_maximum_witness:
  "has ''Weekday'' (fresh tie_frame) \<and> has ''Money'' (fresh tie_frame)
   \<and> has ''Weekdaysort'' (fresh tie_frame) \<and> has ''Month_name'' (fresh tie_frame)
   \<and> has ''Coffee_Name'' (fresh tie_frame) \<and> has ''Hour_of_Day'' (fresh tie_frame)
   \<and> (\<exists>r\<in>set (rows (df (fresh tie_frame))). day_key r \<noteq> None)
   \<and> (\<exists>r\<in>set (rows (df (fresh tie_frame))). Coffee_Name r \<noteq> None)
   \<and> (\<exists>r\<in>set (rows (df (fresh tie_frame))). Hour_of_Day r \<noteq> None)
   \<and> (\<exists>s'. sales_by_day_money_block (fresh tie_frame) = Inr s'
          \<and> sales_by_day_money s' = Some [(0, (''Monday'', 1), 10), (1, (''Tuesday'', 2), 10)]
          \<and> dia_pico_ingresos s' = ''Monday'')
   \<and> (\<exists>s'. sales_volume_by_weekday_block (fresh tie_frame) = Inr s'
          \<and> peak_sales_day s' = ''Monday'')
   \<and> (\<exists>s'. sales_volume_by_month_block True (fresh tie_frame) = Inr s'
          \<and> peak_sales_month s' = ''March'')
   \<and> (\<exists>s'. ventas_cafe_estrella_block True (fresh tie_frame) = Inr s'
          \<and> cafe_mas_vendido_ano s' = ''Latte'' \<and> mes_pico_estrella s' = ''May'')
   \<and> (\<exists>s'. sales_by_hour_block (fresh tie_frame) = Inr s' \<and> peak_hour s' = PyInt 8)
   \<and> (\<exists>s'. porcentajes_cafe_block (fresh tie_frame) = Inr s' \<and> top_coffee_name s' = ''Latte'')"
proof -
  note t = peak_is_first_maximum [of "fresh tie_frame" True]
  have b1: "sales_by_day_money_block (fresh tie_frame)
      = Inr ((fresh tie_frame)\<lparr>sales_by_day_money :=
               Some [(0, (''Monday'', 1), 10), (1, (''Tuesday'', 2), 10)],
             dia_pico_ingresos := ''Monday''\<rparr>)"
    by (simp add: sales_by_day_money_block_eq tie_frame_has tie_day_money_table)
  have b5: "sales_volume_by_weekday_block (fresh tie_frame)
      = Inr ((fresh tie_frame)\<lparr>sales_volume_by_weekday :=
               Some [(0, (''Monday'', 1), 1), (1, (''Tuesday'', 2), 1)],
             peak_sales_day := ''Monday''\<rparr>)"
    by (simp add: sales_volume_by_weekday_block_eq tie_frame_has tie_day_volume_table)
  have b6: "\<exists>s'. sales_volume_by_month_block True (fresh tie_frame) = Inr s'
          \<and> peak_sales_month s' = ''March''"
    by (simp add: sales_volume_by_month_block_eq tie_frame_has tie_month_peak)
  have b2: "\<exists>s'. ventas_cafe_estrella_block True (fresh tie_frame) = Inr s'
          \<and> cafe_mas_vendido_ano s' = ''Latte'' \<and> mes_pico_estrella s' = ''May''"
    by (simp add: ventas_cafe_estrella_block_eq tie_frame_has tie_coffee_counts tie_trend_peak)
  have b3: "\<exists>s'. sales_by_hour_block (fresh tie_frame) = Inr s' \<and> peak_hour s' = PyInt 8"
    by (simp add: sales_by_hour_block_eq tie_frame_has tie_hour_table)
  have b4: "\<exists>s'. porcentajes_cafe_block (fresh tie_frame) = Inr s' \<and> top_coffee_name s' = ''Latte''"
    by (simp add: porcentajes_cafe_block_eq tie_frame_has tie_shares)
  show ?thesis
    using t b1 b5 b6 b2 b3 b4 tie_frame_has tie_frame_keys by simp
qed

end
